theory Spec2Isabelle
  imports Main "HOL-Library.AList"
begin

section \<open>Python values, dictionaries and call conventions\<close>

text \<open>
  The state module \<open>salt/states/netconfig.py\<close> handles untyped Python values: options
  are booleans, \<open>None\<close> or strings, results are dictionaries. A dictionary is an
  association list; \<open>AList.update\<close> is Python's \<open>d[k] = v\<close> (in place when the key
  exists, appended otherwise) and \<open>map_of\<close> is the lookup.
\<close>

datatype pyval =
    PNone
  | PBool bool
  | PInt int
  | PStr string
  | PList "pyval list"
  | PDict "(string \<times> pyval) list"

type_synonym pydict = "(string \<times> pyval) list"

text \<open>Python truthiness, as used by \<open>if __opts__['test']:\<close>.\<close>

fun truthy :: "pyval \<Rightarrow> bool" where
  "truthy PNone = False"
| "truthy (PBool b) = b"
| "truthy (PInt i) = (i \<noteq> 0)"
| "truthy (PStr s) = (s \<noteq> [])"
| "truthy (PList xs) = (xs \<noteq> [])"
| "truthy (PDict d) = (d \<noteq> [])"

text \<open>The exceptions the module itself can raise: a missing key and a bad call.\<close>

datatype error = KeyError string | TypeError string

definition keys :: "pydict \<Rightarrow> string set" where
  "keys kw = fst ` set kw"

text \<open>
  Binding of keyword arguments: a declared parameter takes the value given under its
  name, or its default; the keywords no parameter declares are collected by the
  \<open>**template_vars\<close> catch-all.
\<close>

definition kwarg :: "pydict \<Rightarrow> string \<Rightarrow> pyval \<Rightarrow> pyval" where
  "kwarg kw k d = (case map_of kw k of Some v \<Rightarrow> v | None \<Rightarrow> d)"

definition rest_kwargs :: "string list \<Rightarrow> pydict \<Rightarrow> pydict" where
  "rest_kwargs params kw = filter (\<lambda>kv. fst kv \<notin> set params) kw"

text \<open>
  A call \<open>f(a=x, ..., **d)\<close>: Python raises \<open>TypeError\<close> when \<open>d\<close> repeats a keyword
  written out in the call.
\<close>

definition call_kwargs :: "pydict \<Rightarrow> pydict \<Rightarrow> error + pydict" where
  "call_kwargs explicit starred =
     (case filter (\<lambda>kv. fst kv \<in> keys explicit) starred of
        [] \<Rightarrow> Inr (explicit @ starred)
      | kv # _ \<Rightarrow> Inl (TypeError (fst kv)))"

section \<open>The collaborators of the module\<close>

text \<open>
  The call \<open>__salt__['net.load_template'](template_name, template_source=..., ...,
  **template_vars)\<close> as \<open>_update_config\<close> writes it: one positional argument, fifteen
  keywords written out, and the expansion of \<open>template_vars\<close>.
\<close>

record lt_call =
  lt_template_name :: pyval
  lt_template_source :: pyval
  lt_template_hash :: pyval
  lt_template_hash_name :: pyval
  lt_template_user :: pyval
  lt_template_group :: pyval
  lt_template_mode :: pyval
  lt_template_attrs :: pyval
  lt_saltenv :: pyval
  lt_template_engine :: pyval
  lt_skip_verify :: pyval
  lt_defaults :: pyval
  lt_test :: pyval
  lt_commit :: pyval
  lt_debug :: pyval
  lt_replace :: pyval
  lt_template_vars :: pydict

text \<open>The calls that reach the device, in the order they are made.\<close>

datatype call =
    LoadTemplate lt_call
  | CancelCommit string
  | ConfirmCommit string

text \<open>
  \<open>__salt__\<close> is a dictionary of functions injected by the loader, and
  \<open>salt.utils.napalm\<close> a module outside this file: the module under study only calls
  them. They are a record of functions over a world \<open>'w\<close> (the device and whatever
  else the execution functions touch). \<open>config.merge\<close> only reads the process-wide
  configuration.
\<close>

record 'w salt =
  config_merge :: "string \<Rightarrow> pyval \<Rightarrow> pyval"
  net_load_template :: "lt_call \<Rightarrow> 'w \<Rightarrow> pydict \<times> 'w"
  net_cancel_commit :: "string \<Rightarrow> 'w \<Rightarrow> pydict \<times> 'w"
  net_confirm_commit :: "string \<Rightarrow> 'w \<Rightarrow> pydict \<times> 'w"
  default_ret :: "string \<Rightarrow> pydict"
  loaded_ret :: "pydict \<Rightarrow> pydict \<Rightarrow> pyval \<Rightarrow> pyval \<Rightarrow> pydict"

text \<open>A run threads the world and records every call to a \<open>net.*\<close> function.\<close>

record 'w run =
  world :: 'w
  invoked :: "call list"

definition invoke_load_template :: "'w salt \<Rightarrow> lt_call \<Rightarrow> 'w run \<Rightarrow> pydict \<times> 'w run" where
  "invoke_load_template S c st =
     (case net_load_template S c (world st) of
        (r, w') \<Rightarrow> (r, \<lparr>world = w', invoked = invoked st @ [LoadTemplate c]\<rparr>))"

definition invoke_cancel_commit :: "'w salt \<Rightarrow> string \<Rightarrow> 'w run \<Rightarrow> pydict \<times> 'w run" where
  "invoke_cancel_commit S name st =
     (case net_cancel_commit S name (world st) of
        (r, w') \<Rightarrow> (r, \<lparr>world = w', invoked = invoked st @ [CancelCommit name]\<rparr>))"

definition invoke_confirm_commit :: "'w salt \<Rightarrow> string \<Rightarrow> 'w run \<Rightarrow> pydict \<times> 'w run" where
  "invoke_confirm_commit S name st =
     (case net_confirm_commit S name (world st) of
        (r, w') \<Rightarrow> (r, \<lparr>world = w', invoked = invoked st @ [ConfirmCommit name]\<rparr>))"

section \<open>\<open>commit_cancelled\<close> and \<open>commit_confirmed\<close>\<close>

text \<open>
  \<open>__opts__\<close> is a dictionary; \<open>__opts__['test']\<close> raises \<open>KeyError\<close> when the key is
  missing. \<open>'It would cancel commit #{}'.format(name)\<close> appends the name.
\<close>

definition commit_cancelled ::
  "'w salt \<Rightarrow> pydict \<Rightarrow> string \<Rightarrow> 'w run \<Rightarrow> (error + pydict) \<times> 'w run" where
  "commit_cancelled S opts name st =
     (let cancelled = [(''result'', PNone), (''changes'', PDict []), (''comment'', PStr '''')] in
      case map_of opts ''test'' of
        None \<Rightarrow> (Inl (KeyError ''test''), st)
      | Some t \<Rightarrow>
          if truthy t then
            (Inr (AList.update ''comment'' (PStr (''It would cancel commit #'' @ name)) cancelled), st)
          else
            (case invoke_cancel_commit S name st of
               (cancelled, st') \<Rightarrow> (Inr (AList.update ''changes'' (PDict []) cancelled), st')))"

definition commit_confirmed ::
  "'w salt \<Rightarrow> pydict \<Rightarrow> string \<Rightarrow> 'w run \<Rightarrow> (error + pydict) \<times> 'w run" where
  "commit_confirmed S opts name st =
     (let confirmed = [(''result'', PNone), (''changes'', PDict []), (''comment'', PStr '''')] in
      case map_of opts ''test'' of
        None \<Rightarrow> (Inl (KeyError ''test''), st)
      | Some t \<Rightarrow>
          if truthy t then
            (Inr (AList.update ''comment'' (PStr (''It would confirm commit #'' @ name)) confirmed), st)
          else
            (case invoke_confirm_commit S name st of
               (confirmed, st') \<Rightarrow> (Inr (AList.update ''changes'' (PDict []) confirmed), st')))"

section \<open>\<open>_update_config\<close> and \<open>managed\<close>\<close>

text \<open>
  \<open>_update_config(template_name, template_source=None, ..., replace=False,
  **template_vars)\<close>: the parameters it declares, then the call it makes. It is called
  with \<open>template_name\<close> in first position, so a keyword of that name is a
  \<open>TypeError\<close>.
\<close>

definition update_config_params :: "string list" where
  "update_config_params =
     [''template_name'', ''template_source'', ''template_hash'', ''template_hash_name'',
      ''template_user'', ''template_group'', ''template_mode'', ''template_attrs'',
      ''saltenv'', ''template_engine'', ''skip_verify'', ''defaults'', ''test'', ''commit'',
      ''debug'', ''replace'']"

definition update_config ::
  "'w salt \<Rightarrow> pyval \<Rightarrow> pydict \<Rightarrow> 'w run \<Rightarrow> (error + pydict) \<times> 'w run" where
  "update_config S template_name kw st =
     (if ''template_name'' \<in> keys kw then (Inl (TypeError ''template_name''), st)
      else
        case invoke_load_template S
               \<lparr>lt_template_name = template_name,
                lt_template_source = kwarg kw ''template_source'' PNone,
                lt_template_hash = kwarg kw ''template_hash'' PNone,
                lt_template_hash_name = kwarg kw ''template_hash_name'' PNone,
                lt_template_user = kwarg kw ''template_user'' (PStr ''root''),
                lt_template_group = kwarg kw ''template_group'' (PStr ''root''),
                lt_template_mode = kwarg kw ''template_mode'' (PStr ''755''),
                lt_template_attrs = kwarg kw ''template_attrs'' (PStr ''--------------e----''),
                lt_saltenv = kwarg kw ''saltenv'' PNone,
                lt_template_engine = kwarg kw ''template_engine'' (PStr ''jinja''),
                lt_skip_verify = kwarg kw ''skip_verify'' (PBool False),
                lt_defaults = kwarg kw ''defaults'' PNone,
                lt_test = kwarg kw ''test'' (PBool False),
                lt_commit = kwarg kw ''commit'' (PBool True),
                lt_debug = kwarg kw ''debug'' (PBool False),
                lt_replace = kwarg kw ''replace'' (PBool False),
                lt_template_vars = rest_kwargs update_config_params kw\<rparr> st of
          (r, st') \<Rightarrow> (Inr r, st'))"

text \<open>
  \<open>managed(name, template_name, template_source=None, ..., revert_at=None,
  **template_vars)\<close>. \<open>name\<close> and \<open>template_name\<close> have no default and are given in
  position; \<open>kw\<close> holds the keywords of the call, so a parameter is explicitly given
  exactly when its name is a key of \<open>kw\<close>. Each of the nine flags is rebound to what
  \<open>config.merge\<close> returns for its key and its per-call value.
\<close>

definition managed_params :: "string list" where
  "managed_params =
     [''name'', ''template_name'', ''template_source'', ''template_hash'',
      ''template_hash_name'', ''template_user'', ''template_group'', ''template_mode'',
      ''template_attrs'', ''saltenv'', ''template_engine'', ''skip_verify'', ''defaults'',
      ''test'', ''commit'', ''debug'', ''replace'', ''commit_in'', ''commit_at'',
      ''revert_in'', ''revert_at'']"

definition managed ::
  "'w salt \<Rightarrow> string \<Rightarrow> pyval \<Rightarrow> pydict \<Rightarrow> 'w run \<Rightarrow> (error + pydict) \<times> 'w run" where
  "managed S name template_name kw st =
     (if ''name'' \<in> keys kw then (Inl (TypeError ''name''), st)
      else if ''template_name'' \<in> keys kw then (Inl (TypeError ''template_name''), st)
      else
        let ret = default_ret S name;
            test = config_merge S ''test'' (kwarg kw ''test'' (PBool False));
            debug = config_merge S ''debug'' (kwarg kw ''debug'' (PBool False));
            commit = config_merge S ''commit'' (kwarg kw ''commit'' (PBool True));
            replace = config_merge S ''replace'' (kwarg kw ''replace'' (PBool False));
            skip_verify = config_merge S ''skip_verify'' (kwarg kw ''skip_verify'' (PBool False));
            commit_in = config_merge S ''commit_in'' (kwarg kw ''commit_in'' PNone);
            commit_at = config_merge S ''commit_at'' (kwarg kw ''commit_at'' PNone);
            revert_in = config_merge S ''revert_in'' (kwarg kw ''revert_in'' PNone);
            revert_at = config_merge S ''revert_at'' (kwarg kw ''revert_at'' PNone)
        in
          case call_kwargs
                 [(''template_source'', kwarg kw ''template_source'' PNone),
                  (''template_hash'', kwarg kw ''template_hash'' PNone),
                  (''template_hash_name'', kwarg kw ''template_hash_name'' PNone),
                  (''template_user'', kwarg kw ''template_user'' (PStr ''root'')),
                  (''template_group'', kwarg kw ''template_group'' (PStr ''root'')),
                  (''template_mode'', kwarg kw ''template_mode'' (PStr ''755'')),
                  (''template_attrs'', kwarg kw ''template_attrs'' (PStr ''--------------e----'')),
                  (''saltenv'', kwarg kw ''saltenv'' PNone),
                  (''template_engine'', kwarg kw ''template_engine'' (PStr ''jinja'')),
                  (''skip_verify'', skip_verify),
                  (''defaults'', kwarg kw ''defaults'' PNone),
                  (''test'', test),
                  (''commit'', commit),
                  (''commit_in'', commit_in),
                  (''commit_at'', commit_at),
                  (''revert_in'', revert_in),
                  (''revert_at'', revert_at),
                  (''debug'', debug),
                  (''replace'', replace)]
                 (rest_kwargs managed_params kw) of
            Inl e \<Rightarrow> (Inl e, st)
          | Inr ukw \<Rightarrow>
              (case update_config S template_name ukw st of
                 (Inl e, st') \<Rightarrow> (Inl e, st')
               | (Inr config_update_ret, st') \<Rightarrow>
                   (Inr (loaded_ret S ret config_update_ret test debug), st')))"

text \<open>
  The arguments with which \<open>managed\<close> reaches \<open>net.load_template\<close>, read off the two
  call sites (lemma \<open>managed_run\<close> below proves that this is the call made): what
  \<open>_update_config\<close> declares goes to its own parameter, the four scheduling keywords
  and the caller's template variables end up in \<open>**template_vars\<close>.
\<close>

definition managed_call :: "'w salt \<Rightarrow> pyval \<Rightarrow> pydict \<Rightarrow> lt_call" where
  "managed_call S template_name kw =
     \<lparr>lt_template_name = template_name,
      lt_template_source = kwarg kw ''template_source'' PNone,
      lt_template_hash = kwarg kw ''template_hash'' PNone,
      lt_template_hash_name = kwarg kw ''template_hash_name'' PNone,
      lt_template_user = kwarg kw ''template_user'' (PStr ''root''),
      lt_template_group = kwarg kw ''template_group'' (PStr ''root''),
      lt_template_mode = kwarg kw ''template_mode'' (PStr ''755''),
      lt_template_attrs = kwarg kw ''template_attrs'' (PStr ''--------------e----''),
      lt_saltenv = kwarg kw ''saltenv'' PNone,
      lt_template_engine = kwarg kw ''template_engine'' (PStr ''jinja''),
      lt_skip_verify = config_merge S ''skip_verify'' (kwarg kw ''skip_verify'' (PBool False)),
      lt_defaults = kwarg kw ''defaults'' PNone,
      lt_test = config_merge S ''test'' (kwarg kw ''test'' (PBool False)),
      lt_commit = config_merge S ''commit'' (kwarg kw ''commit'' (PBool True)),
      lt_debug = config_merge S ''debug'' (kwarg kw ''debug'' (PBool False)),
      lt_replace = config_merge S ''replace'' (kwarg kw ''replace'' (PBool False)),
      lt_template_vars =
        [(''commit_in'', config_merge S ''commit_in'' (kwarg kw ''commit_in'' PNone)),
         (''commit_at'', config_merge S ''commit_at'' (kwarg kw ''commit_at'' PNone)),
         (''revert_in'', config_merge S ''revert_in'' (kwarg kw ''revert_in'' PNone)),
         (''revert_at'', config_merge S ''revert_at'' (kwarg kw ''revert_at'' PNone))]
        @ rest_kwargs managed_params kw\<rparr>"

text \<open>The nine keys \<open>managed\<close> looks up with \<open>config.merge\<close>.\<close>

definition merged_keys :: "string list" where
  "merged_keys =
     [''test'', ''debug'', ''commit'', ''replace'', ''skip_verify'', ''commit_in'',
      ''commit_at'', ''revert_in'', ''revert_at'']"

text \<open>
  The precedence as the specification words it: an explicit per-call argument, else the
  process-wide value, else the compiled default.
\<close>

definition three_tier :: "pyval \<Rightarrow> pyval option \<Rightarrow> pyval option \<Rightarrow> pyval" where
  "three_tier compiled process percall =
     (case percall of
        Some v \<Rightarrow> v
      | None \<Rightarrow> (case process of Some v \<Rightarrow> v | None \<Rightarrow> compiled))"

section \<open>The workflow behind the execution functions\<close>

text \<open>
  Modelled from the spec: \<open>net.load_template\<close>, \<open>net.cancel_commit\<close>,
  \<open>net.confirm_commit\<close> and \<open>salt.utils.napalm.default_ret\<close> / \<open>loaded_ret\<close> are
  not among the sources. The definitions of this section follow sections 3, 4.2 to 4.4
  and 7 of the specification: the pending change registry, the commit directive, the
  steps of the apply operation and the cancel and confirm transitions.
\<close>

datatype wf_error =
    InvalidDirective
  | ConflictingDirective
  | TemplateError
  | DeviceCommError
  | UnknownOrTerminalCommit
  | InvalidTransition

text \<open>
  Modelled from the spec: the name under which an error of the taxonomy (section 7)
  shows in the comment of a failed outcome.
\<close>

fun error_name :: "wf_error \<Rightarrow> string" where
  "error_name InvalidDirective = ''InvalidDirective''"
| "error_name ConflictingDirective = ''ConflictingDirective''"
| "error_name TemplateError = ''TemplateError''"
| "error_name DeviceCommError = ''DeviceCommError''"
| "error_name UnknownOrTerminalCommit = ''UnknownOrTerminalCommit''"
| "error_name InvalidTransition = ''InvalidTransition''"

text \<open>
  Modelled from the spec: the states of a pending change and the registry entry
  (section 3).
\<close>

datatype pstate = Scheduled | AwaitingConfirmation | Confirmed | Cancelled | Reverted

record pending_change =
  pc_state :: pstate
  scheduledAt :: "nat option"
  revertAt :: "nat option"

text \<open>
  Modelled from the spec: the device as the workflow sees it, namely its running
  configuration, its candidate buffer, the registry keyed by commit identifier, and the
  instant of the call (in minutes).
\<close>

record device =
  running :: string
  candidate :: "string option"
  registry :: "(string \<times> pending_change) list"
  now :: nat

text \<open>
  Modelled from the spec: the collaborators the specification leaves outside the core
  are taken as given: the change renderer (\<open>None\<close> is a rendering failure), the diff
  the committer computes, the time directive parser of section 4.1 (\<open>None\<close> when the
  directive matches neither grammar) and the commit identifier the committer generates.
\<close>

record collaborators =
  render :: "lt_call \<Rightarrow> string option"
  diff_text :: "string \<Rightarrow> string \<Rightarrow> string"
  parse_directive :: "pyval \<Rightarrow> nat \<Rightarrow> nat option"
  new_commit_id :: "device \<Rightarrow> string"

text \<open>
  Modelled from the spec: the four shapes of a commit directive (section 3), with the
  resolved commit and revert instants.
\<close>

datatype directive =
    Immediate
  | DeferredCommit nat
  | CommitThenRevert nat
  | DeferredCommitThenRevert nat nat

text \<open>
  Modelled from the spec: one axis (commit or revert) of the directive, section 4.2
  step 2. Both forms set is \<open>ConflictingDirective\<close>; a form that is set goes through
  the parser, anchored at the instant of the call.
\<close>

definition resolve_axis :: "collaborators \<Rightarrow> pyval \<Rightarrow> pyval \<Rightarrow> nat \<Rightarrow> wf_error + nat option" where
  "resolve_axis P t_in t_at t0 =
     (if t_in \<noteq> PNone \<and> t_at \<noteq> PNone then Inl ConflictingDirective
      else if t_in = PNone \<and> t_at = PNone then Inr None
      else
        case parse_directive P (if t_in \<noteq> PNone then t_in else t_at) t0 of
          None \<Rightarrow> Inl InvalidDirective
        | Some t \<Rightarrow> Inr (Some t))"

text \<open>
  Modelled from the spec: the directive has one of four shapes, and a revert instant
  must be strictly later than the effective commit instant (section 3); the
  specification names no error for the latter, it is reported as \<open>InvalidDirective\<close>
  here. The four scheduling values arrive among the template variables of the call.
\<close>

definition build_directive :: "collaborators \<Rightarrow> lt_call \<Rightarrow> nat \<Rightarrow> wf_error + directive" where
  "build_directive P c t0 =
     (case resolve_axis P (kwarg (lt_template_vars c) ''commit_in'' PNone)
             (kwarg (lt_template_vars c) ''commit_at'' PNone) t0 of
        Inl e \<Rightarrow> Inl e
      | Inr ct \<Rightarrow>
          (case resolve_axis P (kwarg (lt_template_vars c) ''revert_in'' PNone)
                  (kwarg (lt_template_vars c) ''revert_at'' PNone) t0 of
             Inl e \<Rightarrow> Inl e
           | Inr rt \<Rightarrow>
               (case (ct, rt) of
                  (None, None) \<Rightarrow> Inr Immediate
                | (Some t, None) \<Rightarrow> Inr (DeferredCommit t)
                | (None, Some r) \<Rightarrow>
                    if t0 < r then Inr (CommitThenRevert r) else Inl InvalidDirective
                | (Some t, Some r) \<Rightarrow>
                    if t < r then Inr (DeferredCommitThenRevert t r) else Inl InvalidDirective)))"

text \<open>
  Modelled from the spec: an error is surfaced as a failed outcome (section 7), a
  dictionary with result \<open>False\<close> whose comment names the error.
\<close>

definition failed :: "wf_error \<Rightarrow> pydict" where
  "failed e = [(''result'', PBool False), (''comment'', PStr (error_name e))]"

text \<open>
  Modelled from the spec: what the committer reports for a change it accepted: whether
  the text was already the running configuration, the diff, the rendered text and a
  message.
\<close>

definition loaded :: "bool \<Rightarrow> string \<Rightarrow> string \<Rightarrow> string \<Rightarrow> pydict" where
  "loaded already d text msg =
     [(''result'', PBool True), (''already_configured'', PBool already), (''diff'', PStr d),
      (''loaded_config'', PStr text), (''comment'', PStr msg)]"

text \<open>
  Modelled from the spec: \<open>net.load_template\<close>, the device side of the apply operation
  (section 4.2): build the directive (step 2), render (step 3), and hand the text to
  the committer (step 4). No difference from the running configuration: nothing is
  done (step 5). Dry run: the staged change is discarded (step 6). An immediate commit
  is final (step 7); with \<open>commit\<close> off the text only stays in the candidate buffer. A
  deferred or revertible commit is registered under the identifier the committer
  returns, \<open>Scheduled\<close> when the commit instant is in the future, else
  \<open>AwaitingConfirmation\<close> (step 8).
\<close>

definition spec_load_template :: "collaborators \<Rightarrow> lt_call \<Rightarrow> device \<Rightarrow> pydict \<times> device" where
  "spec_load_template P c w =
     (case build_directive P c (now w) of
        Inl e \<Rightarrow> (failed e, w)
      | Inr d \<Rightarrow>
          (case render P c of
             None \<Rightarrow> (failed TemplateError, w)
           | Some text \<Rightarrow>
               if text = running w then
                 (loaded True [] text ''Already configured.'', w)
               else if truthy (lt_test c) then
                 (loaded False (diff_text P (running w) text) text ''Configuration discarded.'',
                  w\<lparr>candidate := None\<rparr>)
               else if \<not> truthy (lt_commit c) then
                 (loaded False (diff_text P (running w) text) text ''Configuration staged.'',
                  w\<lparr>candidate := Some text\<rparr>)
               else
                 (case d of
                    Immediate \<Rightarrow>
                      (loaded False (diff_text P (running w) text) text ''Configuration changed.'',
                       w\<lparr>running := text, candidate := None\<rparr>)
                  | DeferredCommit t \<Rightarrow>
                      (loaded False (diff_text P (running w) text) text ''Commit scheduled.''
                         @ [(''commit_id'', PStr (new_commit_id P w))],
                       w\<lparr>candidate := Some text,
                         registry := AList.update (new_commit_id P w)
                           \<lparr>pc_state = Scheduled, scheduledAt = Some t, revertAt = None\<rparr>
                           (registry w)\<rparr>)
                  | CommitThenRevert r \<Rightarrow>
                      (loaded False (diff_text P (running w) text) text ''Revert scheduled.''
                         @ [(''commit_id'', PStr (new_commit_id P w))],
                       w\<lparr>running := text, candidate := None,
                         registry := AList.update (new_commit_id P w)
                           \<lparr>pc_state = AwaitingConfirmation, scheduledAt = None, revertAt = Some r\<rparr>
                           (registry w)\<rparr>)
                  | DeferredCommitThenRevert t r \<Rightarrow>
                      (loaded False (diff_text P (running w) text) text ''Commit scheduled.''
                         @ [(''commit_id'', PStr (new_commit_id P w))],
                       w\<lparr>candidate := Some text,
                         registry := AList.update (new_commit_id P w)
                           \<lparr>pc_state = Scheduled, scheduledAt = Some t, revertAt = Some r\<rparr>
                           (registry w)\<rparr>))))"

text \<open>
  Modelled from the spec: \<open>net.cancel_commit\<close> (section 4.3). An absent or terminal
  entry is \<open>UnknownOrTerminalCommit\<close>; a \<open>Scheduled\<close> entry is aborted (the candidate
  buffer is discarded) and becomes \<open>Cancelled\<close>; an entry \<open>AwaitingConfirmation\<close> is
  rejected as \<open>InvalidTransition\<close>.
\<close>

definition spec_cancel_commit :: "string \<Rightarrow> device \<Rightarrow> pydict \<times> device" where
  "spec_cancel_commit cid w =
     (case map_of (registry w) cid of
        None \<Rightarrow> (failed UnknownOrTerminalCommit, w)
      | Some p \<Rightarrow>
          (case pc_state p of
             Scheduled \<Rightarrow>
               ([(''result'', PBool True), (''comment'', PStr (''Commit #'' @ cid @ '' cancelled.''))],
                w\<lparr>candidate := None,
                  registry := AList.update cid (p\<lparr>pc_state := Cancelled\<rparr>) (registry w)\<rparr>)
           | AwaitingConfirmation \<Rightarrow> (failed InvalidTransition, w)
           | _ \<Rightarrow> (failed UnknownOrTerminalCommit, w)))"

text \<open>
  Modelled from the spec: \<open>net.confirm_commit\<close> (section 4.4). The entry must be
  \<open>AwaitingConfirmation\<close>; the revert timer is disarmed and the entry becomes
  \<open>Confirmed\<close>. Anything else is \<open>UnknownOrTerminalCommit\<close>.
\<close>

definition spec_confirm_commit :: "string \<Rightarrow> device \<Rightarrow> pydict \<times> device" where
  "spec_confirm_commit cid w =
     (case map_of (registry w) cid of
        None \<Rightarrow> (failed UnknownOrTerminalCommit, w)
      | Some p \<Rightarrow>
          (case pc_state p of
             AwaitingConfirmation \<Rightarrow>
               ([(''result'', PBool True), (''comment'', PStr (''Commit #'' @ cid @ '' confirmed.''))],
                w\<lparr>registry :=
                    AList.update cid (p\<lparr>pc_state := Confirmed, revertAt := None\<rparr>) (registry w)\<rparr>)
           | _ \<Rightarrow> (failed UnknownOrTerminalCommit, w)))"

text \<open>
  Modelled from the spec: \<open>default_ret\<close> and \<open>loaded_ret\<close> build the outcome record of
  section 3 for the caller. A failure of the committer is a failed outcome; no
  difference gives \<open>already_configured\<close> and result \<open>True\<close> with empty changes (step 5);
  a dry run or a registered commit is undetermined, result \<open>None\<close> (steps 6 and 8);
  otherwise the result is the committer's (step 7). The rendered text is added to the
  changes when debug is requested.
\<close>

definition spec_default_ret :: "string \<Rightarrow> pydict" where
  "spec_default_ret name =
     [(''name'', PStr name), (''changes'', PDict []), (''already_configured'', PBool False),
      (''result'', PBool False), (''comment'', PStr [])]"

definition spec_loaded_ret :: "pydict \<Rightarrow> pydict \<Rightarrow> pyval \<Rightarrow> pyval \<Rightarrow> pydict" where
  "spec_loaded_ret ret ld test debug =
     (let ret = AList.update ''comment'' (kwarg ld ''comment'' (PStr [])) ret in
      if \<not> truthy (kwarg ld ''result'' (PBool False)) then
        AList.update ''result'' (PBool False) ret
      else if truthy (kwarg ld ''already_configured'' (PBool False)) then
        AList.update ''result'' (PBool True)
          (AList.update ''changes'' (PDict [])
             (AList.update ''already_configured'' (PBool True) ret))
      else
        let changes =
              [(''diff'', kwarg ld ''diff'' (PStr []))]
              @ (if truthy debug then [(''loaded_config'', kwarg ld ''loaded_config'' PNone)]
                 else []);
            ret = AList.update ''changes'' (PDict changes) ret
        in
          if truthy test \<or> map_of ld ''commit_id'' \<noteq> None then
            AList.update ''result'' PNone ret
          else AList.update ''result'' (kwarg ld ''result'' (PBool False)) ret)"

text \<open>
  Modelled from the spec: the environment made of the functions above; what
  \<open>config.merge\<close> computes is left open.
\<close>

definition spec_salt :: "collaborators \<Rightarrow> (string \<Rightarrow> pyval \<Rightarrow> pyval) \<Rightarrow> device salt" where
  "spec_salt P cm =
     \<lparr>config_merge = cm,
      net_load_template = spec_load_template P,
      net_cancel_commit = spec_cancel_commit,
      net_confirm_commit = spec_confirm_commit,
      default_ret = spec_default_ret,
      loaded_ret = spec_loaded_ret\<rparr>"

text \<open>
  A fixture for concrete runs: no process-wide value is configured (\<open>config.merge\<close>
  hands back the value it was given), the device functions report a failure and leave
  the world alone, and the result helpers only carry the name and the comment.
\<close>

definition fixture :: "unit salt" where
  "fixture =
     \<lparr>config_merge = (\<lambda>k v. v),
      net_load_template = (\<lambda>c w. ([(''result'', PBool False), (''comment'', PStr ''no device'')], w)),
      net_cancel_commit = (\<lambda>n w. ([(''result'', PBool False), (''comment'', PStr ''no such commit'')], w)),
      net_confirm_commit = (\<lambda>n w. ([(''result'', PBool False), (''comment'', PStr ''no such commit'')], w)),
      default_ret = (\<lambda>n. [(''name'', PStr n)]),
      loaded_ret = (\<lambda>ret loaded test debug. AList.update ''comment'' (kwarg loaded ''comment'' PNone) ret)\<rparr>"

definition start :: "unit run" where
  "start = \<lparr>world = (), invoked = []\<rparr>"

text \<open>
  A second fixture, for the workflow: the rendered text is the inline template source,
  the diff is the new text, a relative directive is a number of minutes, and commit
  identifiers are numbered by the size of the registry.
\<close>

definition plain :: collaborators where
  "plain = \<lparr>render = (\<lambda>c. case lt_template_source c of PStr s \<Rightarrow> Some s | _ \<Rightarrow> None),
         diff_text = (\<lambda>a b. b),
         parse_directive = (\<lambda>v t. case v of PInt i \<Rightarrow> Some (t + nat i) | _ \<Rightarrow> None),
         new_commit_id = (\<lambda>w. ''c'' @ replicate (length (registry w)) (CHR ''x''))\<rparr>"

section \<open>Dry-run and result shape of cancel and confirm\<close>

lemma map_of_update_same: "map_of (AList.update k v al) k = Some v"
  by (simp add: update_conv')

text \<open>
  C3. In dry-run mode (\<open>__opts__['test']\<close> truthy) \<open>commit_cancelled\<close> returns the
  outcome with result \<open>None\<close>, empty changes and the comment
  "It would cancel commit #<id>", and the run is left as it was: the world is untouched
  and no call, in particular no \<open>net.cancel_commit\<close>, is recorded.
\<close>

theorem commit_cancelled_dry_run:
  assumes "map_of opts ''test'' = Some t" and "truthy t"
  shows "commit_cancelled S opts name st =
           (Inr [(''result'', PNone), (''changes'', PDict []),
                 (''comment'', PStr (''It would cancel commit #'' @ name))], st)"
  using assms by (simp add: commit_cancelled_def)

theorem commit_cancelled_dry_run_witness:
  "commit_cancelled fixture [(''test'', PBool True)] ''20180726083540640360'' start =
     (Inr [(''result'', PNone), (''changes'', PDict []),
           (''comment'', PStr ''It would cancel commit #20180726083540640360'')], start)"
  using commit_cancelled_dry_run [of "[(''test'', PBool True)]" "PBool True" fixture
      "''20180726083540640360''" start]
  by simp

text \<open>
  C4. In dry-run mode \<open>commit_confirmed\<close> returns the outcome with result \<open>None\<close>,
  empty changes and a comment that only reports the intent, and the run is left as it
  was: no \<open>net.confirm_commit\<close> is recorded and the world is untouched.
\<close>

theorem commit_confirmed_dry_run:
  assumes "map_of opts ''test'' = Some t" and "truthy t"
  shows "commit_confirmed S opts name st =
           (Inr [(''result'', PNone), (''changes'', PDict []),
                 (''comment'', PStr (''It would confirm commit #'' @ name))], st)"
  using assms by (simp add: commit_confirmed_def)

theorem commit_confirmed_dry_run_witness:
  "commit_confirmed fixture [(''test'', PBool True)] ''20180726083540640360'' start =
     (Inr [(''result'', PNone), (''changes'', PDict []),
           (''comment'', PStr ''It would confirm commit #20180726083540640360'')], start)"
  using commit_confirmed_dry_run [of "[(''test'', PBool True)]" "PBool True" fixture
      "''20180726083540640360''" start]
  by simp

text \<open>
  C5. Whatever dictionary \<open>net.cancel_commit\<close> or \<open>net.confirm_commit\<close> returns, and in
  dry-run mode as well, the outcome of \<open>commit_cancelled\<close> and of \<open>commit_confirmed\<close>
  has the empty dictionary under \<open>changes\<close> (the functions return whenever
  \<open>__opts__\<close> has the key \<open>test\<close>).
\<close>

theorem cancel_confirm_changes_empty:
  assumes "map_of opts ''test'' = Some t"
  shows "(\<exists>out st'. commit_cancelled S opts name st = (Inr out, st') \<and>
            map_of out ''changes'' = Some (PDict [])) \<and>
         (\<exists>out st'. commit_confirmed S opts name st = (Inr out, st') \<and>
            map_of out ''changes'' = Some (PDict []))"
proof
  show "\<exists>out st'. commit_cancelled S opts name st = (Inr out, st') \<and>
          map_of out ''changes'' = Some (PDict [])"
    using assms
    by (cases "invoke_cancel_commit S name st")
       (simp add: commit_cancelled_def map_of_update_same)
next
  show "\<exists>out st'. commit_confirmed S opts name st = (Inr out, st') \<and>
          map_of out ''changes'' = Some (PDict [])"
    using assms
    by (cases "invoke_confirm_commit S name st")
       (simp add: commit_confirmed_def map_of_update_same)
qed

theorem cancel_confirm_changes_empty_witness:
  "(\<exists>out st'. commit_cancelled fixture [(''test'', PBool False)] ''42'' start = (Inr out, st') \<and>
      map_of out ''changes'' = Some (PDict [])) \<and>
   (\<exists>out st'. commit_confirmed fixture [(''test'', PBool False)] ''42'' start = (Inr out, st') \<and>
      map_of out ''changes'' = Some (PDict []))"
  using cancel_confirm_changes_empty [of "[(''test'', PBool False)]" "PBool False" fixture "''42''" start]
  by simp

text \<open>
  C9. In dry-run mode neither operation looks the commit identifier up: for every
  name, every environment and every world the outcome is the "It would cancel/confirm
  commit #<name>" dictionary with result \<open>None\<close>, also where the execution function
  would have reported a failure for that name, and nothing is invoked.
\<close>

theorem dry_run_skips_lookup:
  assumes "map_of opts ''test'' = Some t" and "truthy t"
  shows "fst (commit_cancelled S opts name st) =
           Inr [(''result'', PNone), (''changes'', PDict []),
                (''comment'', PStr (''It would cancel commit #'' @ name))] \<and>
         fst (commit_confirmed S opts name st) =
           Inr [(''result'', PNone), (''changes'', PDict []),
                (''comment'', PStr (''It would confirm commit #'' @ name))] \<and>
         invoked (snd (commit_cancelled S opts name st)) = invoked st \<and>
         invoked (snd (commit_confirmed S opts name st)) = invoked st"
  using assms by (simp add: commit_cancelled_def commit_confirmed_def)

theorem dry_run_skips_lookup_witness:
  "fst (net_cancel_commit fixture ''nope'' ()) =
     [(''result'', PBool False), (''comment'', PStr ''no such commit'')] \<and>
   fst (commit_cancelled fixture [(''test'', PBool True)] ''nope'' start) =
     Inr [(''result'', PNone), (''changes'', PDict []),
          (''comment'', PStr ''It would cancel commit #nope'')] \<and>
   fst (commit_confirmed fixture [(''test'', PBool True)] ''nope'' start) =
     Inr [(''result'', PNone), (''changes'', PDict []),
          (''comment'', PStr ''It would confirm commit #nope'')] \<and>
   invoked (snd (commit_cancelled fixture [(''test'', PBool True)] ''nope'' start)) = [] \<and>
   invoked (snd (commit_confirmed fixture [(''test'', PBool True)] ''nope'' start)) = []"
  using dry_run_skips_lookup [of "[(''test'', PBool True)]" "PBool True" fixture "''nope''" start]
  by (simp add: fixture_def start_def)

section \<open>Keyword binding and the call made by \<open>managed\<close>\<close>

lemma keys_rest_kwargs: "keys (rest_kwargs ps kw) \<inter> set ps = {}"
  by (auto simp: keys_def rest_kwargs_def)

lemma rest_kwargs_subset:
  "set ps \<subseteq> set qs \<Longrightarrow> rest_kwargs ps (rest_kwargs qs kw) = rest_kwargs qs kw"
  by (induction kw) (auto simp: rest_kwargs_def)

lemma call_kwargs_disjoint:
  "keys starred \<inter> keys explicit = {} \<Longrightarrow> call_kwargs explicit starred = Inr (explicit @ starred)"
proof -
  assume d: "keys starred \<inter> keys explicit = {}"
  have "filter (\<lambda>kv. fst kv \<in> keys explicit) starred = []"
    using d by (auto simp: filter_empty_conv keys_def)
  then show ?thesis by (simp add: call_kwargs_def)
qed

lemma kwarg_Cons: "kwarg ((k', v) # a) k d = (if k = k' then v else kwarg a k d)"
  by (simp add: kwarg_def)


lemma rest_managed_no_param:
  "k \<in> set managed_params \<Longrightarrow> k \<notin> keys (rest_kwargs managed_params kw)"
  using keys_rest_kwargs [of managed_params kw] by blast

lemma rest_kwargs_Cons:
  "rest_kwargs ps (kv # a) = (if fst kv \<in> set ps then rest_kwargs ps a else kv # rest_kwargs ps a)"
  by (simp add: rest_kwargs_def)

lemma update_params_subset: "set update_config_params \<subseteq> set managed_params"
  by (simp add: update_config_params_def managed_params_def)

lemma update_config_run:
  assumes "''template_name'' \<notin> keys kw"
  shows "update_config S tn kw st =
     (let c = \<lparr>lt_template_name = tn,
                lt_template_source = kwarg kw ''template_source'' PNone,
                lt_template_hash = kwarg kw ''template_hash'' PNone,
                lt_template_hash_name = kwarg kw ''template_hash_name'' PNone,
                lt_template_user = kwarg kw ''template_user'' (PStr ''root''),
                lt_template_group = kwarg kw ''template_group'' (PStr ''root''),
                lt_template_mode = kwarg kw ''template_mode'' (PStr ''755''),
                lt_template_attrs = kwarg kw ''template_attrs'' (PStr ''--------------e----''),
                lt_saltenv = kwarg kw ''saltenv'' PNone,
                lt_template_engine = kwarg kw ''template_engine'' (PStr ''jinja''),
                lt_skip_verify = kwarg kw ''skip_verify'' (PBool False),
                lt_defaults = kwarg kw ''defaults'' PNone,
                lt_test = kwarg kw ''test'' (PBool False),
                lt_commit = kwarg kw ''commit'' (PBool True),
                lt_debug = kwarg kw ''debug'' (PBool False),
                lt_replace = kwarg kw ''replace'' (PBool False),
                lt_template_vars = rest_kwargs update_config_params kw\<rparr>
      in (Inr (fst (net_load_template S c (world st))),
          \<lparr>world = snd (net_load_template S c (world st)),
           invoked = invoked st @ [LoadTemplate c]\<rparr>))"
  using assms
  by (simp add: update_config_def invoke_load_template_def Let_def split: prod.splits)

lemma managed_run:
  assumes n: "''name'' \<notin> keys kw" and t: "''template_name'' \<notin> keys kw"
  shows "managed S name tn kw st =
     (Inr (loaded_ret S (default_ret S name)
             (fst (net_load_template S (managed_call S tn kw) (world st)))
             (config_merge S ''test'' (kwarg kw ''test'' (PBool False)))
             (config_merge S ''debug'' (kwarg kw ''debug'' (PBool False)))),
      \<lparr>world = snd (net_load_template S (managed_call S tn kw) (world st)),
       invoked = invoked st @ [LoadTemplate (managed_call S tn kw)]\<rparr>)"
proof -
  let ?R = "rest_kwargs managed_params kw"
  have disj: "\<And>E. keys E \<subseteq> set managed_params \<Longrightarrow> call_kwargs E ?R = Inr (E @ ?R)"
    using keys_rest_kwargs [of managed_params kw]
    by (intro call_kwargs_disjoint) blast
  have nk: "\<And>k. k \<in> set managed_params \<Longrightarrow> k \<notin> keys ?R"
    by (rule rest_managed_no_param)
  have tnR: "''template_name'' \<notin> keys ?R"
    by (rule nk) (simp add: managed_params_def)
  have restR: "rest_kwargs update_config_params ?R = ?R"
    by (rule rest_kwargs_subset [OF update_params_subset])
  show ?thesis
    unfolding managed_def Let_def
    apply (simp only: n t if_False)
    apply (subst disj)
     apply (simp add: keys_def managed_params_def)
    apply (simp only: sum.case)
    apply (subst update_config_run)
     apply (simp add: keys_def tnR [unfolded keys_def])
    apply (simp add: Let_def managed_call_def kwarg_Cons rest_kwargs_Cons
        restR [unfolded update_config_params_def] update_config_params_def)
    done
qed

section \<open>Option resolution and forwarding in \<open>managed\<close>\<close>

text \<open>
  C1, as stated, does not hold. \<open>managed\<close> hands \<open>config.merge\<close> one value per
  option: the explicit argument, or the compiled default when none is given. With the
  process-wide configuration \<open>{test: True}\<close>, a call without \<open>test\<close> and a call with
  an explicit \<open>test=False\<close> both ask for \<open>config.merge('test', False)\<close>; whatever that
  function computes, the two calls pass on the same value, while the three-tier
  precedence wants \<open>True\<close> for the first and \<open>False\<close> for the second. With a
  \<open>config.merge\<close> that returns the configured value where there is one (the comment
  at the call site: the process-wide flags "have higher precedence"), the explicit
  \<open>test=False\<close> reaches \<open>net.load_template\<close> as \<open>True\<close>.
\<close>

theorem managed_three_tier_counterexample:
  "\<not> (\<exists>cm :: (string \<rightharpoonup> pyval) \<Rightarrow> string \<Rightarrow> pyval \<Rightarrow> pyval.
        (\<exists>c. invoked (snd (managed (fixture\<lparr>config_merge := cm [''test'' \<mapsto> PBool True]\<rparr>)
                 ''r'' (PStr ''t'') [] start)) = [LoadTemplate c] \<and>
              lt_test c = three_tier (PBool False) (Some (PBool True)) None) \<and>
        (\<exists>c. invoked (snd (managed (fixture\<lparr>config_merge := cm [''test'' \<mapsto> PBool True]\<rparr>)
                 ''r'' (PStr ''t'') [(''test'', PBool False)] start)) = [LoadTemplate c] \<and>
              lt_test c = three_tier (PBool False) (Some (PBool True)) (Some (PBool False)))) \<and>
   invoked (snd (managed
       (fixture\<lparr>config_merge :=
          (\<lambda>k v. case [''test'' \<mapsto> PBool True] k of Some p \<Rightarrow> p | None \<Rightarrow> v)\<rparr>)
       ''r'' (PStr ''t'') [(''test'', PBool False)] start)) =
     [LoadTemplate
        \<lparr>lt_template_name = PStr ''t'', lt_template_source = PNone, lt_template_hash = PNone,
         lt_template_hash_name = PNone, lt_template_user = PStr ''root'',
         lt_template_group = PStr ''root'', lt_template_mode = PStr ''755'',
         lt_template_attrs = PStr ''--------------e----'', lt_saltenv = PNone,
         lt_template_engine = PStr ''jinja'', lt_skip_verify = PBool False,
         lt_defaults = PNone, lt_test = PBool True, lt_commit = PBool True,
         lt_debug = PBool False, lt_replace = PBool False,
         lt_template_vars =
           [(''commit_in'', PNone), (''commit_at'', PNone), (''revert_in'', PNone),
            (''revert_at'', PNone)]\<rparr>]"
proof
  show "\<not> (\<exists>cm :: (string \<rightharpoonup> pyval) \<Rightarrow> string \<Rightarrow> pyval \<Rightarrow> pyval.
        (\<exists>c. invoked (snd (managed (fixture\<lparr>config_merge := cm [''test'' \<mapsto> PBool True]\<rparr>)
                 ''r'' (PStr ''t'') [] start)) = [LoadTemplate c] \<and>
              lt_test c = three_tier (PBool False) (Some (PBool True)) None) \<and>
        (\<exists>c. invoked (snd (managed (fixture\<lparr>config_merge := cm [''test'' \<mapsto> PBool True]\<rparr>)
                 ''r'' (PStr ''t'') [(''test'', PBool False)] start)) = [LoadTemplate c] \<and>
              lt_test c = three_tier (PBool False) (Some (PBool True)) (Some (PBool False))))"
    by (simp add: managed_run keys_def managed_call_def kwarg_def three_tier_def start_def)
next
  show "invoked (snd (managed
       (fixture\<lparr>config_merge :=
          (\<lambda>k v. case [''test'' \<mapsto> PBool True] k of Some p \<Rightarrow> p | None \<Rightarrow> v)\<rparr>)
       ''r'' (PStr ''t'') [(''test'', PBool False)] start)) =
     [LoadTemplate
        \<lparr>lt_template_name = PStr ''t'', lt_template_source = PNone, lt_template_hash = PNone,
         lt_template_hash_name = PNone, lt_template_user = PStr ''root'',
         lt_template_group = PStr ''root'', lt_template_mode = PStr ''755'',
         lt_template_attrs = PStr ''--------------e----'', lt_saltenv = PNone,
         lt_template_engine = PStr ''jinja'', lt_skip_verify = PBool False,
         lt_defaults = PNone, lt_test = PBool True, lt_commit = PBool True,
         lt_debug = PBool False, lt_replace = PBool False,
         lt_template_vars =
           [(''commit_in'', PNone), (''commit_at'', PNone), (''revert_in'', PNone),
            (''revert_at'', PNone)]\<rparr>]"
    by (simp add: managed_run keys_def managed_call_def kwarg_def rest_kwargs_def
        managed_params_def start_def)
qed

text \<open>
  C1, amended. For every call of \<open>managed\<close>, each of the options test, debug, commit,
  replace, skip_verify, commit_in, commit_at, revert_in and revert_at reaches
  \<open>net.load_template\<close> as the value \<open>config.merge\<close> returns for the option's key and
  its per-call value, the per-call value being the explicit argument when one is given
  and the compiled default otherwise.
\<close>

theorem managed_option_resolution:
  assumes "''name'' \<notin> keys kw" and "''template_name'' \<notin> keys kw"
  shows "\<exists>c. invoked (snd (managed S name tn kw st)) = invoked st @ [LoadTemplate c] \<and>
           lt_test c = config_merge S ''test'' (kwarg kw ''test'' (PBool False)) \<and>
           lt_debug c = config_merge S ''debug'' (kwarg kw ''debug'' (PBool False)) \<and>
           lt_commit c = config_merge S ''commit'' (kwarg kw ''commit'' (PBool True)) \<and>
           lt_replace c = config_merge S ''replace'' (kwarg kw ''replace'' (PBool False)) \<and>
           lt_skip_verify c =
             config_merge S ''skip_verify'' (kwarg kw ''skip_verify'' (PBool False)) \<and>
           map_of (lt_template_vars c) ''commit_in'' =
             Some (config_merge S ''commit_in'' (kwarg kw ''commit_in'' PNone)) \<and>
           map_of (lt_template_vars c) ''commit_at'' =
             Some (config_merge S ''commit_at'' (kwarg kw ''commit_at'' PNone)) \<and>
           map_of (lt_template_vars c) ''revert_in'' =
             Some (config_merge S ''revert_in'' (kwarg kw ''revert_in'' PNone)) \<and>
           map_of (lt_template_vars c) ''revert_at'' =
             Some (config_merge S ''revert_at'' (kwarg kw ''revert_at'' PNone))"
  by (rule exI [of _ "managed_call S tn kw"])
     (simp add: managed_run [OF assms] managed_call_def)

theorem managed_option_resolution_witness:
  "\<exists>c. invoked (snd (managed fixture ''r'' (PStr ''t'') [(''test'', PBool True)] start)) =
          [LoadTemplate c] \<and>
       lt_test c = PBool True \<and> lt_debug c = PBool False \<and> lt_commit c = PBool True \<and>
       lt_replace c = PBool False \<and> lt_skip_verify c = PBool False \<and>
       map_of (lt_template_vars c) ''commit_in'' = Some PNone \<and>
       map_of (lt_template_vars c) ''commit_at'' = Some PNone \<and>
       map_of (lt_template_vars c) ''revert_in'' = Some PNone \<and>
       map_of (lt_template_vars c) ''revert_at'' = Some PNone"
  using managed_option_resolution [of "[(''test'', PBool True)]" fixture "''r''" "PStr ''t''" start]
  by (simp add: keys_def kwarg_def fixture_def start_def)

text \<open>
  C2, as stated, does not hold: \<open>managed\<close> has no check of its own. Called with both
  \<open>commit_in\<close> and \<open>commit_at\<close> set, it invokes \<open>net.load_template\<close> with both values
  and returns what the result helpers make of the answer.
\<close>

theorem managed_conflict_counterexample:
  "managed fixture ''r'' (PStr ''t'')
     [(''commit_in'', PStr ''5''), (''commit_at'', PStr ''1am'')] start =
   (Inr [(''name'', PStr ''r''), (''comment'', PStr ''no device'')],
    \<lparr>world = (),
     invoked =
       [LoadTemplate
          \<lparr>lt_template_name = PStr ''t'', lt_template_source = PNone, lt_template_hash = PNone,
           lt_template_hash_name = PNone, lt_template_user = PStr ''root'',
           lt_template_group = PStr ''root'', lt_template_mode = PStr ''755'',
           lt_template_attrs = PStr ''--------------e----'', lt_saltenv = PNone,
           lt_template_engine = PStr ''jinja'', lt_skip_verify = PBool False,
           lt_defaults = PNone, lt_test = PBool False, lt_commit = PBool True,
           lt_debug = PBool False, lt_replace = PBool False,
           lt_template_vars =
             [(''commit_in'', PStr ''5''), (''commit_at'', PStr ''1am''),
              (''revert_in'', PNone), (''revert_at'', PNone)]\<rparr>]\<rparr>)"
  by (simp add: managed_run keys_def managed_call_def kwarg_def rest_kwargs_def
      managed_params_def start_def fixture_def)

text \<open>
  C2, amended. For every call of \<open>managed\<close>, whatever the resolved values of
  commit_in, commit_at, revert_in and revert_at are (also when both of a pair are set),
  \<open>managed\<close> raises no error of its own: it invokes \<open>net.load_template\<close> exactly once,
  forwarding the four resolved values, and returns \<open>loaded_ret\<close> of the answer. Any
  rejection of conflicting directives is left to \<open>net.load_template\<close>.
\<close>

theorem managed_always_loads:
  assumes "''name'' \<notin> keys kw" and "''template_name'' \<notin> keys kw"
  shows "\<exists>c. managed S name tn kw st =
           (Inr (loaded_ret S (default_ret S name) (fst (net_load_template S c (world st)))
                   (lt_test c) (lt_debug c)),
            \<lparr>world = snd (net_load_template S c (world st)),
             invoked = invoked st @ [LoadTemplate c]\<rparr>) \<and>
           map_of (lt_template_vars c) ''commit_in'' =
             Some (config_merge S ''commit_in'' (kwarg kw ''commit_in'' PNone)) \<and>
           map_of (lt_template_vars c) ''commit_at'' =
             Some (config_merge S ''commit_at'' (kwarg kw ''commit_at'' PNone)) \<and>
           map_of (lt_template_vars c) ''revert_in'' =
             Some (config_merge S ''revert_in'' (kwarg kw ''revert_in'' PNone)) \<and>
           map_of (lt_template_vars c) ''revert_at'' =
             Some (config_merge S ''revert_at'' (kwarg kw ''revert_at'' PNone))"
  by (rule exI [of _ "managed_call S tn kw"])
     (simp add: managed_run [OF assms] managed_call_def)

theorem managed_always_loads_witness:
  "\<exists>c. managed fixture ''r'' (PStr ''t'')
          [(''revert_in'', PStr ''2m''), (''revert_at'', PStr ''13:20'')] start =
          (Inr [(''name'', PStr ''r''), (''comment'', PStr ''no device'')],
           \<lparr>world = (), invoked = [LoadTemplate c]\<rparr>) \<and>
       map_of (lt_template_vars c) ''commit_in'' = Some PNone \<and>
       map_of (lt_template_vars c) ''commit_at'' = Some PNone \<and>
       map_of (lt_template_vars c) ''revert_in'' = Some (PStr ''2m'') \<and>
       map_of (lt_template_vars c) ''revert_at'' = Some (PStr ''13:20'')"
  using managed_always_loads [of "[(''revert_in'', PStr ''2m''), (''revert_at'', PStr ''13:20'')]"
      fixture "''r''" "PStr ''t''" start]
  by (simp add: keys_def kwarg_def fixture_def start_def)

text \<open>
  C8. \<open>_update_config\<close> declares no parameter for commit_in, commit_at, revert_in or
  revert_at: whatever keyword it does not declare goes to \<open>net.load_template\<close> through
  its \<open>**template_vars\<close>. So in the call \<open>managed\<close> makes, the four resolved
  scheduling values travel in the same keyword dictionary as the caller's template
  variables.
\<close>

theorem scheduling_args_in_template_vars:
  assumes "''name'' \<notin> keys kw" and "''template_name'' \<notin> keys kw"
    and "''template_name'' \<notin> keys ukw"
  shows "(\<exists>c. invoked (snd (update_config S tn ukw st)) = invoked st @ [LoadTemplate c] \<and>
              lt_template_vars c = rest_kwargs update_config_params ukw) \<and>
         set [''commit_in'', ''commit_at'', ''revert_in'', ''revert_at''] \<inter>
           set update_config_params = {} \<and>
         (\<exists>c. invoked (snd (managed S name tn kw st)) = invoked st @ [LoadTemplate c] \<and>
              lt_template_vars c =
                [(''commit_in'', config_merge S ''commit_in'' (kwarg kw ''commit_in'' PNone)),
                 (''commit_at'', config_merge S ''commit_at'' (kwarg kw ''commit_at'' PNone)),
                 (''revert_in'', config_merge S ''revert_in'' (kwarg kw ''revert_in'' PNone)),
                 (''revert_at'', config_merge S ''revert_at'' (kwarg kw ''revert_at'' PNone))]
                @ rest_kwargs managed_params kw)"
proof (intro conjI)
  show "\<exists>c. invoked (snd (update_config S tn ukw st)) = invoked st @ [LoadTemplate c] \<and>
          lt_template_vars c = rest_kwargs update_config_params ukw"
    using assms(3) by (simp add: update_config_run Let_def)
next
  show "set [''commit_in'', ''commit_at'', ''revert_in'', ''revert_at''] \<inter>
          set update_config_params = {}"
    by (simp add: update_config_params_def)
next
  show "\<exists>c. invoked (snd (managed S name tn kw st)) = invoked st @ [LoadTemplate c] \<and>
          lt_template_vars c =
            [(''commit_in'', config_merge S ''commit_in'' (kwarg kw ''commit_in'' PNone)),
             (''commit_at'', config_merge S ''commit_at'' (kwarg kw ''commit_at'' PNone)),
             (''revert_in'', config_merge S ''revert_in'' (kwarg kw ''revert_in'' PNone)),
             (''revert_at'', config_merge S ''revert_at'' (kwarg kw ''revert_at'' PNone))]
            @ rest_kwargs managed_params kw"
    by (rule exI [of _ "managed_call S tn kw"])
       (simp add: managed_run [OF assms(1,2)] managed_call_def)
qed

theorem scheduling_args_in_template_vars_witness:
  "(\<exists>c. invoked (snd (update_config fixture (PStr ''t'')
            [(''test'', PBool True), (''commit_in'', PStr ''5''), (''peers'', PList [])] start)) =
          [LoadTemplate c] \<and>
        lt_template_vars c = [(''commit_in'', PStr ''5''), (''peers'', PList [])]) \<and>
   set [''commit_in'', ''commit_at'', ''revert_in'', ''revert_at''] \<inter>
     set update_config_params = {} \<and>
   (\<exists>c. invoked (snd (managed fixture ''r'' (PStr ''t'')
            [(''commit_in'', PStr ''5''), (''peers'', PList [])] start)) = [LoadTemplate c] \<and>
        lt_template_vars c =
          [(''commit_in'', PStr ''5''), (''commit_at'', PNone), (''revert_in'', PNone),
           (''revert_at'', PNone), (''peers'', PList [])])"
  using scheduling_args_in_template_vars [of "[(''commit_in'', PStr ''5''), (''peers'', PList [])]"
      "[(''test'', PBool True), (''commit_in'', PStr ''5''), (''peers'', PList [])]"
      fixture "PStr ''t''" start "''r''"]
  by (simp add: keys_def kwarg_def fixture_def start_def rest_kwargs_def
      update_config_params_def managed_params_def)

text \<open>
  C10. If two environments resolve the nine merged keys alike, \<open>managed\<close> called with
  the same arguments makes the same call to \<open>net.load_template\<close> in both; and in that
  call the template name, source, hash, hash name, user, group, mode, attributes,
  saltenv, engine, defaults and the template variables are the per-call values (or the
  compiled defaults), never a process-wide one.
\<close>

theorem managed_config_noninterference:
  assumes "''name'' \<notin> keys kw" and "''template_name'' \<notin> keys kw"
    and "\<forall>k \<in> set merged_keys. \<forall>v. config_merge S k v = config_merge S' k v"
  shows "\<exists>c. invoked (snd (managed S name tn kw st)) = invoked st @ [LoadTemplate c] \<and>
           invoked (snd (managed S' name tn kw st')) = invoked st' @ [LoadTemplate c] \<and>
           lt_template_name c = tn \<and>
           lt_template_source c = kwarg kw ''template_source'' PNone \<and>
           lt_template_hash c = kwarg kw ''template_hash'' PNone \<and>
           lt_template_hash_name c = kwarg kw ''template_hash_name'' PNone \<and>
           lt_template_user c = kwarg kw ''template_user'' (PStr ''root'') \<and>
           lt_template_group c = kwarg kw ''template_group'' (PStr ''root'') \<and>
           lt_template_mode c = kwarg kw ''template_mode'' (PStr ''755'') \<and>
           lt_template_attrs c = kwarg kw ''template_attrs'' (PStr ''--------------e----'') \<and>
           lt_saltenv c = kwarg kw ''saltenv'' PNone \<and>
           lt_template_engine c = kwarg kw ''template_engine'' (PStr ''jinja'') \<and>
           lt_defaults c = kwarg kw ''defaults'' PNone \<and>
           drop 4 (lt_template_vars c) = rest_kwargs managed_params kw"
proof -
  have "managed_call S tn kw = managed_call S' tn kw"
    using assms(3) by (simp add: managed_call_def merged_keys_def)
  then show ?thesis
    by (intro exI [of _ "managed_call S tn kw"])
       (simp add: managed_run [OF assms(1,2)] managed_call_def)
qed

theorem managed_config_noninterference_witness:
  "\<exists>c. invoked (snd (managed fixture ''r'' (PStr ''t'')
            [(''saltenv'', PStr ''base''), (''peers'', PList [])] start)) = [LoadTemplate c] \<and>
       invoked (snd (managed
            (fixture\<lparr>config_merge := (\<lambda>k v. if k = ''saltenv'' then PStr ''prod'' else v)\<rparr>)
            ''r'' (PStr ''t'') [(''saltenv'', PStr ''base''), (''peers'', PList [])] start)) =
         [LoadTemplate c] \<and>
       lt_template_name c = PStr ''t'' \<and> lt_template_source c = PNone \<and>
       lt_template_hash c = PNone \<and> lt_template_hash_name c = PNone \<and>
       lt_template_user c = PStr ''root'' \<and> lt_template_group c = PStr ''root'' \<and>
       lt_template_mode c = PStr ''755'' \<and>
       lt_template_attrs c = PStr ''--------------e----'' \<and>
       lt_saltenv c = PStr ''base'' \<and> lt_template_engine c = PStr ''jinja'' \<and>
       lt_defaults c = PNone \<and> drop 4 (lt_template_vars c) = [(''peers'', PList [])]"
  using managed_config_noninterference [of "[(''saltenv'', PStr ''base''), (''peers'', PList [])]"
      fixture "fixture\<lparr>config_merge := (\<lambda>k v. if k = ''saltenv'' then PStr ''prod'' else v)\<rparr>"
      "''r''" "PStr ''t''" start start]
  by (simp add: keys_def kwarg_def fixture_def start_def rest_kwargs_def
      managed_params_def merged_keys_def)

section \<open>The workflow: cancel transitions and changes already applied\<close>

text \<open>
  C6. Outside dry-run mode and with the cancel transition of the workflow: cancelling
  a change that is \<open>AwaitingConfirmation\<close> gives a failed outcome naming
  \<open>InvalidTransition\<close> and leaves the device and the registry as they were (no
  revert); cancelling a \<open>Scheduled\<close> change succeeds and makes it \<open>Cancelled\<close>,
  the running configuration untouched; and a cancel that succeeds was a cancel of a
  \<open>Scheduled\<close> change.
\<close>

theorem cancel_transitions:
  assumes "map_of opts ''test'' = Some t" and "\<not> truthy t"
  shows
   "(\<forall>p. map_of (registry (world st)) cid = Some p \<and> pc_state p = AwaitingConfirmation \<longrightarrow>
       commit_cancelled (spec_salt P cm) opts cid st =
         (Inr [(''result'', PBool False), (''comment'', PStr ''InvalidTransition''),
               (''changes'', PDict [])],
          \<lparr>world = world st, invoked = invoked st @ [CancelCommit cid]\<rparr>)) \<and>
    (\<forall>p. map_of (registry (world st)) cid = Some p \<and> pc_state p = Scheduled \<longrightarrow>
       (\<exists>out st'. commit_cancelled (spec_salt P cm) opts cid st = (Inr out, st') \<and>
          map_of out ''result'' = Some (PBool True) \<and>
          running (world st') = running (world st) \<and>
          map_of (registry (world st')) cid = Some (p\<lparr>pc_state := Cancelled\<rparr>))) \<and>
    (\<forall>out st'. commit_cancelled (spec_salt P cm) opts cid st = (Inr out, st') \<and>
        map_of out ''result'' = Some (PBool True) \<longrightarrow>
        (\<exists>p. map_of (registry (world st)) cid = Some p \<and> pc_state p = Scheduled))"
proof (intro conjI allI impI)
  fix p
  assume "map_of (registry (world st)) cid = Some p \<and> pc_state p = AwaitingConfirmation"
  then show "commit_cancelled (spec_salt P cm) opts cid st =
         (Inr [(''result'', PBool False), (''comment'', PStr ''InvalidTransition''),
               (''changes'', PDict [])],
          \<lparr>world = world st, invoked = invoked st @ [CancelCommit cid]\<rparr>)"
    using assms
    by (simp add: commit_cancelled_def invoke_cancel_commit_def spec_salt_def
        spec_cancel_commit_def failed_def)
next
  fix p
  assume "map_of (registry (world st)) cid = Some p \<and> pc_state p = Scheduled"
  then show "\<exists>out st'. commit_cancelled (spec_salt P cm) opts cid st = (Inr out, st') \<and>
          map_of out ''result'' = Some (PBool True) \<and>
          running (world st') = running (world st) \<and>
          map_of (registry (world st')) cid = Some (p\<lparr>pc_state := Cancelled\<rparr>)"
    using assms
    by (simp add: commit_cancelled_def invoke_cancel_commit_def spec_salt_def
        spec_cancel_commit_def map_of_update_same)
next
  fix out st'
  assume a: "commit_cancelled (spec_salt P cm) opts cid st = (Inr out, st') \<and>
        map_of out ''result'' = Some (PBool True)"
  show "\<exists>p. map_of (registry (world st)) cid = Some p \<and> pc_state p = Scheduled"
  proof (cases "map_of (registry (world st)) cid")
    case None
    with a assms show ?thesis
      by (auto simp: commit_cancelled_def invoke_cancel_commit_def spec_salt_def
          spec_cancel_commit_def failed_def)
  next
    case (Some p)
    with a assms show ?thesis
      by (cases "pc_state p")
         (auto simp: commit_cancelled_def invoke_cancel_commit_def spec_salt_def
          spec_cancel_commit_def failed_def)
  qed
qed

theorem cancel_transitions_witness:
  "commit_cancelled (spec_salt plain (\<lambda>k v. v)) [(''test'', PBool False)] ''c1''
     \<lparr>world = \<lparr>running = ''new'', candidate = None,
               registry = [(''c1'', \<lparr>pc_state = AwaitingConfirmation, scheduledAt = None,
                                    revertAt = Some 2\<rparr>)], now = 0\<rparr>,
      invoked = []\<rparr> =
     (Inr [(''result'', PBool False), (''comment'', PStr ''InvalidTransition''),
           (''changes'', PDict [])],
      \<lparr>world = \<lparr>running = ''new'', candidate = None,
               registry = [(''c1'', \<lparr>pc_state = AwaitingConfirmation, scheduledAt = None,
                                    revertAt = Some 2\<rparr>)], now = 0\<rparr>,
       invoked = [CancelCommit ''c1'']\<rparr>) \<and>
   (\<exists>out st'. commit_cancelled (spec_salt plain (\<lambda>k v. v)) [(''test'', PBool False)] ''c2''
        \<lparr>world = \<lparr>running = ''old'', candidate = Some ''new'',
                  registry = [(''c2'', \<lparr>pc_state = Scheduled, scheduledAt = Some 5,
                                       revertAt = None\<rparr>)], now = 0\<rparr>,
         invoked = []\<rparr> = (Inr out, st') \<and>
      map_of out ''result'' = Some (PBool True) \<and>
      running (world st') = ''old'' \<and>
      map_of (registry (world st')) ''c2'' =
        Some \<lparr>pc_state = Cancelled, scheduledAt = Some 5, revertAt = None\<rparr>)"
  using cancel_transitions [of "[(''test'', PBool False)]" "PBool False"
      "\<lparr>world = \<lparr>running = ''new'', candidate = None,
               registry = [(''c1'', \<lparr>pc_state = AwaitingConfirmation, scheduledAt = None,
                                    revertAt = Some 2\<rparr>)], now = 0\<rparr>,
      invoked = []\<rparr>" "''c1''" plain "\<lambda>k v. v"]
    cancel_transitions [of "[(''test'', PBool False)]" "PBool False"
      "\<lparr>world = \<lparr>running = ''old'', candidate = Some ''new'',
                  registry = [(''c2'', \<lparr>pc_state = Scheduled, scheduledAt = Some 5,
                                       revertAt = None\<rparr>)], now = 0\<rparr>,
         invoked = []\<rparr>" "''c2''" plain "\<lambda>k v. v"]
  by simp

text \<open>
  C7. With the apply steps of the workflow: when the directive of the call is well
  formed (of any of the four shapes) and the rendered text is the running
  configuration, \<open>managed\<close> returns an outcome with \<open>already_configured\<close> and result
  \<open>True\<close> and empty changes, the device and the registry are as before (no pending
  entry), and the same call repeated returns the same outcome.
\<close>

theorem already_applied:
  assumes "''name'' \<notin> keys kw" and "''template_name'' \<notin> keys kw"
    and "invoked (snd (managed (spec_salt P cm) name tn kw st)) = invoked st @ [LoadTemplate c]"
    and "build_directive P c (now (world st)) = Inr d"
    and "render P c = Some (running (world st))"
  shows "\<exists>out st'. managed (spec_salt P cm) name tn kw st = (Inr out, st') \<and>
           map_of out ''already_configured'' = Some (PBool True) \<and>
           map_of out ''result'' = Some (PBool True) \<and>
           map_of out ''changes'' = Some (PDict []) \<and>
           world st' = world st \<and>
           fst (managed (spec_salt P cm) name tn kw st') = Inr out \<and>
           world (snd (managed (spec_salt P cm) name tn kw st')) = world st"
proof -
  let ?S = "spec_salt P cm"
  have c: "c = managed_call ?S tn kw"
    using assms(3) by (simp add: managed_run [OF assms(1,2)])
  have ld: "net_load_template ?S (managed_call ?S tn kw) (world st) =
              (loaded True [] (running (world st)) ''Already configured.'', world st)"
    using assms(4,5) unfolding c
    by (simp add: spec_salt_def spec_load_template_def)
  have out: "map_of (loaded_ret ?S (default_ret ?S name)
                 (loaded True [] (running (world st)) ''Already configured.'') x y) k = 
             map_of (AList.update ''result'' (PBool True)
          (AList.update ''changes'' (PDict [])
             (AList.update ''already_configured'' (PBool True) 
                (AList.update ''comment'' (PStr ''Already configured.'') (spec_default_ret name))))) k" for x y k
    by (simp add: spec_salt_def spec_loaded_ret_def loaded_def kwarg_def)
  show ?thesis
    by (simp add: managed_run [OF assms(1,2)] ld out update_conv')
qed

theorem already_applied_witness:
  "\<exists>out st'.
      managed (spec_salt plain (\<lambda>k v. v)) ''r'' (PStr ''t'')
        [(''template_source'', PStr ''cfg''), (''revert_in'', PInt 2)]
        \<lparr>world = \<lparr>running = ''cfg'', candidate = None, registry = [], now = 0\<rparr>,
         invoked = []\<rparr> = (Inr out, st') \<and>
      map_of out ''already_configured'' = Some (PBool True) \<and>
      map_of out ''result'' = Some (PBool True) \<and>
      map_of out ''changes'' = Some (PDict []) \<and>
      world st' = \<lparr>running = ''cfg'', candidate = None, registry = [], now = 0\<rparr> \<and>
      fst (managed (spec_salt plain (\<lambda>k v. v)) ''r'' (PStr ''t'')
             [(''template_source'', PStr ''cfg''), (''revert_in'', PInt 2)] st') = Inr out \<and>
      world (snd (managed (spec_salt plain (\<lambda>k v. v)) ''r'' (PStr ''t'')
             [(''template_source'', PStr ''cfg''), (''revert_in'', PInt 2)] st')) =
        \<lparr>running = ''cfg'', candidate = None, registry = [], now = 0\<rparr>"
proof -
  let ?kw = "[(''template_source'', PStr ''cfg''), (''revert_in'', PInt 2)]"
  let ?st = "\<lparr>world = \<lparr>running = ''cfg'', candidate = None, registry = [], now = 0\<rparr>,
              invoked = []\<rparr>"
  let ?c = "\<lparr>lt_template_name = PStr ''t'', lt_template_source = PStr ''cfg'',
             lt_template_hash = PNone, lt_template_hash_name = PNone,
             lt_template_user = PStr ''root'', lt_template_group = PStr ''root'',
             lt_template_mode = PStr ''755'', lt_template_attrs = PStr ''--------------e----'',
             lt_saltenv = PNone, lt_template_engine = PStr ''jinja'',
             lt_skip_verify = PBool False, lt_defaults = PNone, lt_test = PBool False,
             lt_commit = PBool True, lt_debug = PBool False, lt_replace = PBool False,
             lt_template_vars =
               [(''commit_in'', PNone), (''commit_at'', PNone), (''revert_in'', PInt 2),
                (''revert_at'', PNone)]\<rparr>"
  have h1: "''name'' \<notin> keys ?kw" by (simp add: keys_def)
  have h2: "''template_name'' \<notin> keys ?kw" by (simp add: keys_def)
  have h3: "invoked (snd (managed (spec_salt plain (\<lambda>k v. v)) ''r'' (PStr ''t'') ?kw ?st)) =
              invoked ?st @ [LoadTemplate ?c]"
    by (simp add: managed_run [OF h1 h2] managed_call_def kwarg_def rest_kwargs_def
        managed_params_def spec_salt_def)
  have h4: "build_directive plain ?c (now (world ?st)) = Inr (CommitThenRevert 2)"
    by (simp add: build_directive_def resolve_axis_def kwarg_def plain_def)
  have h5: "render plain ?c = Some (running (world ?st))"
    by (simp add: plain_def)
  show ?thesis
    using already_applied [OF h1 h2 h3 h4 h5] by simp
qed

end
